theory Spec2Isabelle
  imports Main
begin

section \<open>Data model of the outgoing payment service\<close>

text \<open>
  Modelled from the spec: the members \<^verbatim>\<open>Sending\<close> and \<^verbatim>\<open>Completed\<close> of the enum
  \<^verbatim>\<open>PaymentState\<close>, whose declaration (\<^verbatim>\<open>./model\<close>) is not among the sources. The
  members \<^verbatim>\<open>Inactive\<close>, \<^verbatim>\<open>Ready\<close>, \<^verbatim>\<open>Activated\<close>, \<^verbatim>\<open>Cancelling\<close> and
  \<^verbatim>\<open>Cancelled\<close> are those \<^verbatim>\<open>service.ts\<close> names. \<^verbatim>\<open>Inactive\<close> is the state a payment
  is inserted with, the initial state (the specification calls it Quoting).
\<close>

datatype PaymentState =
  Inactive | Ready | Activated | Sending | Cancelling | Cancelled | Completed

text \<open>
  Modelled from the spec: the members of \<^verbatim>\<open>lifecycle.LifecycleError\<close> other than
  \<^verbatim>\<open>CancelledByAPI\<close>, the one the service names; the declaration (\<^verbatim>\<open>./lifecycle\<close>)
  is not among the sources.
\<close>

datatype LifecycleError =
  CancelledByAPI | QuoteExpired | RetriesExhausted | QuoteFailed | SendFailed

text \<open>
  \<^verbatim>\<open>PaymentError\<close> of the streaming library: its members are the keys of the table
  \<^verbatim>\<open>clientErrors\<close>, whose type \<^verbatim>\<open>{ [key in PaymentError]: boolean }\<close> makes the table
  list every member once.
\<close>

datatype PaymentError =
  InvalidPaymentPointer
  | InvalidCredentials
  | InvalidSlippage
  | UnknownSourceAsset
  | UnknownPaymentTarget
  | InvalidSourceAmount
  | InvalidDestinationAmount
  | UnenforceableDelivery
  | InvalidQuote
  | QueryFailed
  | InvoiceAlreadyPaid
  | ConnectorError
  | EstablishmentFailed
  | UnknownDestinationAsset
  | DestinationAssetConflict
  | ExternalRateUnavailable
  | RateProbeFailed
  | InsufficientExchangeRate
  | IdleTimeout
  | ClosedByReceiver
  | IncompatibleReceiveMax
  | ReceiverProtocolViolation
  | MaxSafeEncryptionLimit

text \<open>The \<^verbatim>\<open>error\<close> column of a payment holds a lifecycle or a streaming error code.\<close>

datatype error_code = Lifecycle LifecycleError | Streaming PaymentError

text \<open>
  The intent, as \<^verbatim>\<open>createOutgoingPayment\<close> copies it into the row. An optional property
  of the JavaScript object is an \<open>option\<close>; \<^verbatim>\<open>amountToSend\<close> is a bigint.
\<close>

record PaymentIntent =
  paymentPointer :: "string option"
  invoiceUrl :: "string option"
  amountToSend :: "int option"
  autoApprove :: bool

text \<open>\<^verbatim>\<open>type CreateOutgoingPaymentOptions = PaymentIntent & { superAccountId: string }\<close>\<close>

record CreateOutgoingPaymentOptions = PaymentIntent +
  optionsSuperAccountId :: string

text \<open>
  The quote column. No function of the service reads inside it; the two timestamps are
  the members \<^verbatim>\<open>paymentToGraphql\<close> names first.
\<close>

record Quote =
  timestamp :: int
  activationDeadline :: int

text \<open>
  \<^verbatim>\<open>sourceAccount: { id, code, scale }\<close> and \<^verbatim>\<open>destinationAccount: { scale, code, url }\<close>;
  the members carry a prefix here, since both objects use the names
  \<^verbatim>\<open>code\<close> and \<^verbatim>\<open>scale\<close>.
\<close>

record SourceAccount =
  sourceId :: string
  sourceCode :: string
  sourceScale :: nat

record DestinationAccount =
  destinationScale :: nat
  destinationCode :: string
  destinationUrl :: string

text \<open>
  A row of the payments table. \<^verbatim>\<open>paymentId\<close> is the column \<^verbatim>\<open>id\<close>. The columns
  \<^verbatim>\<open>destinationAccount\<close> and \<^verbatim>\<open>accountId\<close> are options: a property of a JavaScript
  object can be unset, and the insert of \<^verbatim>\<open>createOutgoingPayment\<close> names no
  \<^verbatim>\<open>accountId\<close>, which only the resolvers read.
\<close>

record OutgoingPayment =
  paymentId :: string
  state :: PaymentState
  error :: "error_code option"
  stateAttempts :: nat
  intent :: PaymentIntent
  quote :: "Quote option"
  superAccountId :: string
  sourceAccount :: SourceAccount
  destinationAccount :: "DestinationAccount option"
  accountId :: "string option"

text \<open>The payments table, by primary key.\<close>

type_synonym payments = "string \<rightharpoonup> OutgoingPayment"

section \<open>Errors\<close>

text \<open>
  Every \<^verbatim>\<open>throw new Error(...)\<close> of the service is one constructor, carrying what the
  message interpolates. \<^verbatim>\<open>ExternalFailure\<close> is an \<^verbatim>\<open>Error\<close> thrown by a collaborator
  (the plugin's \<^verbatim>\<open>connect\<close>, the database).
\<close>

datatype error_message =
  MutuallyExclusive
  | UnableToCreateSourceAccount string
  | PaymentDoesNotExist
  | CannotQuote PaymentState
  | CannotApprove PaymentState
  | CannotCancel PaymentState
  | ExternalFailure string

text \<open>
  What a promise of the service rejects with: an \<^verbatim>\<open>Error\<close> object, or a
  \<^verbatim>\<open>PaymentError\<close> of the streaming library (the resolver's
  \<^verbatim>\<open>catch((err: Error | PaymentError) => ...)\<close>).
\<close>

datatype thrown = JsError error_message | PaymentErr PaymentError

section \<open>The commands on one payment\<close>

text \<open>
  Each command runs in one transaction: it reads the row for update, checks the state,
  and patches the row. A throw inside the transaction rolls it back; the model returns
  the table as it was. The result is the promise's outcome and the table after the call.
  A patch writes the columns it names, in the table and in the instance that is
  returned. It also runs the update hook of the model class (\<^verbatim>\<open>./model\<close>), which is
  not among the sources: what the hook adds is modelled for \<^verbatim>\<open>requotePayment\<close>, whose
  contract in the specification names columns its patch does not;
  \<^verbatim>\<open>approvePayment\<close> and \<^verbatim>\<open>cancelPayment\<close> are modelled by the columns their patches
  name.
\<close>

text \<open>
  Modelled from the spec: the columns of a requoted row other than \<^verbatim>\<open>state\<close>. The
  patch of \<^verbatim>\<open>requotePayment\<close> names \<^verbatim>\<open>state\<close> only; the model class (\<^verbatim>\<open>./model\<close>),
  whose \<^verbatim>\<open>$beforeUpdate\<close> the patch runs, is not among the sources. The specification's
  words: requote "Resets \<^verbatim>\<open>quote=null\<close>, \<^verbatim>\<open>error=null\<close>, \<^verbatim>\<open>state=Quoting\<close>,
  \<^verbatim>\<open>stateAttempts=0\<close>", and \<^verbatim>\<open>stateAttempts\<close> is "reset to 0 on state change".
\<close>

definition requoteReset :: "OutgoingPayment \<Rightarrow> OutgoingPayment" where
  "requoteReset payment = payment\<lparr>quote := None, error := None, stateAttempts := 0\<rparr>"

text \<open>
  Modelled from the spec: the row \<^verbatim>\<open>requotePayment\<close> writes, as far as the update hook
  of the model class (\<^verbatim>\<open>./model\<close>, not among the sources) decides it: the patched row
  after \<open>requoteReset\<close>. The lookup, the test of the state, the two throws and the patch
  \<^verbatim>\<open>{ state: PaymentState.Inactive }\<close> are the source's.
\<close>

definition requotePayment :: "payments \<Rightarrow> string \<Rightarrow> (thrown + OutgoingPayment) \<times> payments" where
  "requotePayment db i =
     (case db i of
        None \<Rightarrow> (Inl (JsError PaymentDoesNotExist), db)
      | Some payment \<Rightarrow>
          if state payment \<noteq> Cancelled
          then (Inl (JsError (CannotQuote (state payment))), db)
          else (let payment' = requoteReset (payment\<lparr>state := Inactive\<rparr>)
                in (Inr payment', db(i \<mapsto> payment'))))"

definition approvePayment :: "payments \<Rightarrow> string \<Rightarrow> (thrown + OutgoingPayment) \<times> payments" where
  "approvePayment db i =
     (case db i of
        None \<Rightarrow> (Inl (JsError PaymentDoesNotExist), db)
      | Some payment \<Rightarrow>
          if state payment \<noteq> Ready
          then (Inl (JsError (CannotApprove (state payment))), db)
          else (let payment' = payment\<lparr>state := Activated\<rparr>
                in (Inr payment', db(i \<mapsto> payment'))))"

definition cancelPayment :: "payments \<Rightarrow> string \<Rightarrow> (thrown + OutgoingPayment) \<times> payments" where
  "cancelPayment db i =
     (case db i of
        None \<Rightarrow> (Inl (JsError PaymentDoesNotExist), db)
      | Some payment \<Rightarrow>
          if state payment \<noteq> Ready
          then (Inl (JsError (CannotCancel (state payment))), db)
          else (let payment' = payment\<lparr>state := Cancelling,
                                          error := Some (Lifecycle CancelledByAPI)\<rparr>
                in (Inr payment', db(i \<mapsto> payment'))))"

definition getOutgoingPayment :: "payments \<Rightarrow> string \<Rightarrow> OutgoingPayment option" where
  "getOutgoingPayment db i = db i"

section \<open>Creating a payment\<close>

text \<open>What \<^verbatim>\<open>Pay.setupPayment\<close> resolves with, as far as the service reads it.\<close>

record Destination =
  destinationAssetScale :: nat
  destinationAssetCode :: string
  accountUrl :: string

text \<open>The account \<^verbatim>\<open>accountService.create\<close> returns: \<^verbatim>\<open>id\<close>, \<^verbatim>\<open>asset.code\<close>, \<^verbatim>\<open>asset.scale\<close>.\<close>

record Account =
  acctId :: string
  assetCode :: string
  assetScale :: nat

text \<open>
  The collaborators of \<^verbatim>\<open>createOutgoingPayment\<close>, none of them code of the service, are
  parameters:
  \<^item> \<open>pluginConnect a\<close>: \<^verbatim>\<open>connect()\<close> on the plugin \<^verbatim>\<open>makeIlpPlugin(a)\<close> returns; \<open>None\<close>
    when it resolves, the message when it throws;
  \<^item> \<open>pluginDisconnect a\<close>: the same for \<^verbatim>\<open>disconnect()\<close>;
  \<^item> \<open>setupPayment a pointer url\<close>: \<^verbatim>\<open>Pay.setupPayment\<close> over that plugin, which resolves
    with a destination or rejects with a \<^verbatim>\<open>PaymentError\<close>;
  \<^item> \<open>accountServiceCreate a\<close>: an account error (a string) or the new account;
  \<^item> \<open>insertId\<close>: the primary key the insert generates.
\<close>

record ServiceDependencies =
  pluginConnect :: "string \<Rightarrow> string option"
  pluginDisconnect :: "string \<Rightarrow> string option"
  setupPayment :: "string \<Rightarrow> string option \<Rightarrow> string option \<Rightarrow> PaymentError + Destination"
  accountServiceCreate :: "string \<Rightarrow> string + Account"
  insertId :: string

text \<open>
  What the service acts on: the payments table (\<^verbatim>\<open>deps.knex\<close>), the calls made on
  plugins in the order they were made, the sub-accounts the account service created,
  and the warnings logged.
\<close>

datatype plugin_event = Connected string | SetupPaymentCalled string | DisconnectCalled string

record world =
  knex :: payments
  plugins :: "plugin_event list"
  subAccounts :: "string list"
  logger :: "string list"

text \<open>JavaScript truthiness of an optional string: unset and the empty string are falsy.\<close>

definition truthy :: "string option \<Rightarrow> bool" where
  "truthy s = (case s of None \<Rightarrow> False | Some v \<Rightarrow> v \<noteq> [])"

text \<open>
  \<^verbatim>\<open>promise.finally(f)\<close>: \<open>f\<close> runs when the promise settles, resolved or rejected, and
  the settlement is passed on.
\<close>

definition promiseFinally :: "'e + 'a \<Rightarrow> (world \<Rightarrow> world) \<Rightarrow> world \<Rightarrow> ('e + 'a) \<times> world" where
  "promiseFinally settled f w = (settled, f w)"

text \<open>
  The callback of the \<^verbatim>\<open>finally\<close>: \<^verbatim>\<open>plugin.disconnect()\<close> is called, and a rejection of
  it is caught and logged.
\<close>

definition disconnectPlugin :: "ServiceDependencies \<Rightarrow> string \<Rightarrow> world \<Rightarrow> world" where
  "disconnectPlugin deps a w =
     w\<lparr>plugins := plugins w @ [DisconnectCalled a],
       logger := logger w @
         (case pluginDisconnect deps a of
            None \<Rightarrow> []
          | Some msg \<Rightarrow> [''error disconnecting plugin''])\<rparr>"

text \<open>
  Modelled from the spec: the values of the columns the insert does not name
  (\<^verbatim>\<open>stateAttempts = 0\<close>, no \<^verbatim>\<open>quote\<close>, no \<^verbatim>\<open>error\<close>); the defaults of the table
  are in a migration that is not among the sources. The rest is the row
  \<^verbatim>\<open>insertAndFetch\<close> is given: the insert names \<^verbatim>\<open>state\<close>, \<^verbatim>\<open>intent\<close>,
  \<^verbatim>\<open>superAccountId\<close>, \<^verbatim>\<open>sourceAccount\<close> and \<^verbatim>\<open>destinationAccount\<close>.
\<close>

definition newPayment ::
  "string \<Rightarrow> CreateOutgoingPaymentOptions \<Rightarrow> Account \<Rightarrow> Destination \<Rightarrow> OutgoingPayment" where
  "newPayment i options sourceAcct destination =
     \<lparr>paymentId = i,
      state = Inactive,
      error = None,
      stateAttempts = 0,
      intent = \<lparr>paymentPointer = paymentPointer options,
                invoiceUrl = invoiceUrl options,
                amountToSend = amountToSend options,
                autoApprove = autoApprove options\<rparr>,
      quote = None,
      superAccountId = optionsSuperAccountId options,
      sourceAccount = \<lparr>sourceId = acctId sourceAcct,
                       sourceCode = assetCode sourceAcct,
                       sourceScale = assetScale sourceAcct\<rparr>,
      destinationAccount = Some \<lparr>destinationScale = destinationAssetScale destination,
                                 destinationCode = destinationAssetCode destination,
                                 destinationUrl = accountUrl destination\<rparr>,
      accountId = None\<rparr>"

text \<open>
  \<^verbatim>\<open>insertAndFetch\<close>: the row is stored under the generated key and returned; a key that
  is taken violates the primary key and the insert throws.
\<close>

definition insertAndFetch :: "OutgoingPayment \<Rightarrow> world \<Rightarrow> (thrown + OutgoingPayment) \<times> world" where
  "insertAndFetch payment w =
     (case knex w (paymentId payment) of
        Some existing \<Rightarrow> (Inl (JsError (ExternalFailure ''duplicate key'')), w)
      | None \<Rightarrow> (Inr payment, w\<lparr>knex := (knex w)(paymentId payment \<mapsto> payment)\<rparr>))"

text \<open>The statements of \<^verbatim>\<open>createOutgoingPayment\<close> after the destination is known.\<close>

definition createSourceAccountAndInsert ::
  "ServiceDependencies \<Rightarrow> CreateOutgoingPaymentOptions \<Rightarrow> Destination \<Rightarrow> world
     \<Rightarrow> (thrown + OutgoingPayment) \<times> world" where
  "createSourceAccountAndInsert deps options destination w =
     (case accountServiceCreate deps (optionsSuperAccountId options) of
        Inl accountError \<Rightarrow>
          (Inl (JsError (UnableToCreateSourceAccount accountError)),
           w\<lparr>logger := logger w @ [''createOutgoingPayment source account creation failed'']\<rparr>)
      | Inr sourceAcct \<Rightarrow>
          insertAndFetch (newPayment (insertId deps) options sourceAcct destination)
            (w\<lparr>subAccounts := subAccounts w @ [acctId sourceAcct]\<rparr>))"

definition createOutgoingPayment ::
  "ServiceDependencies \<Rightarrow> CreateOutgoingPaymentOptions \<Rightarrow> world
     \<Rightarrow> (thrown + OutgoingPayment) \<times> world" where
  "createOutgoingPayment deps options w =
     (if truthy (invoiceUrl options) \<and>
         (truthy (paymentPointer options) \<or> amountToSend options \<noteq> None)
      then (Inl (JsError MutuallyExclusive),
            w\<lparr>logger := logger w @ [''createOutgoingPayment invalid parameters'']\<rparr>)
      else
        (case pluginConnect deps (optionsSuperAccountId options) of
           Some msg \<Rightarrow> (Inl (JsError (ExternalFailure msg)), w)
         | None \<Rightarrow>
             (case promiseFinally
                     (setupPayment deps (optionsSuperAccountId options)
                        (paymentPointer options) (invoiceUrl options))
                     (disconnectPlugin deps (optionsSuperAccountId options))
                     (w\<lparr>plugins := plugins w @
                          [Connected (optionsSuperAccountId options),
                           SetupPaymentCalled (optionsSuperAccountId options)]\<rparr>) of
                (Inl err, w') \<Rightarrow> (Inl (PaymentErr err), w')
              | (Inr destination, w') \<Rightarrow>
                  createSourceAccountAndInsert deps options destination w')))"

section \<open>The GraphQL resolvers\<close>

datatype CreateError = UnknownAccount | UnknownMandate

text \<open>
  The \<^verbatim>\<open>message\<close> of a response: a literal, the \<^verbatim>\<open>message\<close> of a caught \<^verbatim>\<open>Error\<close>, or
  a caught \<^verbatim>\<open>PaymentError\<close> itself (\<^verbatim>\<open>typeof err === 'string' ? err : err.message\<close>).
\<close>

datatype response_message =
  Literal string | MessageOf error_message | PaymentErrorString PaymentError

record OutgoingPaymentResponse =
  code :: string
  success :: bool
  message :: "response_message option"
  payment :: "OutgoingPayment option"

text \<open>The table \<^verbatim>\<open>clientErrors\<close>, entry by entry.\<close>

fun clientErrors :: "PaymentError \<Rightarrow> bool" where
  "clientErrors InvalidPaymentPointer = True"
| "clientErrors InvalidCredentials = True"
| "clientErrors InvalidSlippage = False"
| "clientErrors UnknownSourceAsset = True"
| "clientErrors UnknownPaymentTarget = True"
| "clientErrors InvalidSourceAmount = True"
| "clientErrors InvalidDestinationAmount = True"
| "clientErrors UnenforceableDelivery = True"
| "clientErrors InvalidQuote = False"
| "clientErrors QueryFailed = True"
| "clientErrors InvoiceAlreadyPaid = False"
| "clientErrors ConnectorError = False"
| "clientErrors EstablishmentFailed = False"
| "clientErrors UnknownDestinationAsset = False"
| "clientErrors DestinationAssetConflict = False"
| "clientErrors ExternalRateUnavailable = False"
| "clientErrors RateProbeFailed = False"
| "clientErrors InsufficientExchangeRate = False"
| "clientErrors IdleTimeout = False"
| "clientErrors ClosedByReceiver = False"
| "clientErrors IncompatibleReceiveMax = False"
| "clientErrors ReceiverProtocolViolation = False"
| "clientErrors MaxSafeEncryptionLimit = False"

text \<open>\<^verbatim>\<open>isPaymentError\<close> of the streaming library: the value is a member of the enum.\<close>

fun isPaymentError :: "thrown \<Rightarrow> bool" where
  "isPaymentError (PaymentErr e) = True"
| "isPaymentError (JsError m) = False"

text \<open>\<^verbatim>\<open>clientErrors[err]\<close>: the table has no entry for a value that is no key of it.\<close>

fun clientErrorsAt :: "thrown \<Rightarrow> bool" where
  "clientErrorsAt (PaymentErr e) = clientErrors e"
| "clientErrorsAt (JsError m) = False"

fun errorMessage :: "thrown \<Rightarrow> response_message" where
  "errorMessage (PaymentErr e) = PaymentErrorString e"
| "errorMessage (JsError m) = MessageOf m"

fun createErrorToResponse :: "CreateError \<Rightarrow> OutgoingPaymentResponse" where
  "createErrorToResponse UnknownAccount =
     \<lparr>code = ''404'', success = False, message = Some (Literal ''Unknown account''), payment = None\<rparr>"
| "createErrorToResponse UnknownMandate =
     \<lparr>code = ''404'', success = False, message = Some (Literal ''Unknown mandate''), payment = None\<rparr>"

text \<open>
  The resolver \<^verbatim>\<open>createOutgoingPayment\<close>, as a function of how the promise of
  \<^verbatim>\<open>outgoingPaymentService.create\<close> settles: rejected (\<open>Inl\<close>), or resolved with a
  \<^verbatim>\<open>CreateError\<close> or a payment.
\<close>

definition createOutgoingPayment_resolver ::
  "thrown + (CreateError + OutgoingPayment) \<Rightarrow> OutgoingPaymentResponse" where
  "createOutgoingPayment_resolver settled =
     (case settled of
        Inr (Inl createError) \<Rightarrow> createErrorToResponse createError
      | Inr (Inr p) \<Rightarrow> \<lparr>code = ''200'', success = True, message = None, payment = Some p\<rparr>
      | Inl err \<Rightarrow>
          \<lparr>code = (if isPaymentError err \<and> clientErrorsAt err then ''400'' else ''500''),
           success = False,
           message = Some (errorMessage err),
           payment = None\<rparr>)"

section \<open>Page information of a connection\<close>

text \<open>An edge of a connection: its cursor and the \<^verbatim>\<open>id\<close> of its node.\<close>

record Edge =
  cursor :: string
  nodeId :: string

text \<open>The pagination arguments \<^verbatim>\<open>{ after, before, first, last }\<close> of \<^verbatim>\<open>getAccountPage\<close>.\<close>

record Pagination =
  pageAfter :: "string option"
  pageBefore :: "string option"
  pageFirst :: "nat option"
  pageLast :: "nat option"

record PageInfo =
  endCursor :: "string option"
  hasNextPage :: bool
  hasPreviousPage :: bool
  startCursor :: "string option"

text \<open>
  The service as the resolver uses it: \<^verbatim>\<open>get\<close>, and \<^verbatim>\<open>getAccountPage\<close>, which is given
  the account of the first payment and the pagination and resolves with a page or
  rejects. \<^verbatim>\<open>getAccountPage\<close> is a parameter: the service file among the sources does
  not define it.
\<close>

record OutgoingPaymentService =
  serviceGet :: "string \<Rightarrow> OutgoingPayment option"
  serviceGetAccountPage :: "string option \<Rightarrow> Pagination \<Rightarrow> thrown + OutgoingPayment list"

text \<open>\<^verbatim>\<open>try { page = await getAccountPage(...) } catch (e) { page = [] }\<close>\<close>

definition pageOrEmpty :: "thrown + OutgoingPayment list \<Rightarrow> OutgoingPayment list" where
  "pageOrEmpty settled = (case settled of Inl e \<Rightarrow> [] | Inr page \<Rightarrow> page)"

text \<open>
  The resolver \<^verbatim>\<open>pageInfo\<close>. The edges of the parent are \<open>None\<close> when they are
  \<^verbatim>\<open>null\<close> or \<^verbatim>\<open>undefined\<close>. \<open>Inl\<close> is the string the resolver throws when the
  payment of the first edge is not found.
\<close>

definition getOutgoingPaymentPageInfo ::
  "OutgoingPaymentService \<Rightarrow> Edge list option \<Rightarrow> string + PageInfo" where
  "getOutgoingPaymentPageInfo service parentEdges =
     (case parentEdges of
        None \<Rightarrow>
          Inr \<lparr>endCursor = None, hasNextPage = False, hasPreviousPage = False, startCursor = None\<rparr>
      | Some [] \<Rightarrow>
          Inr \<lparr>endCursor = None, hasNextPage = False, hasPreviousPage = False, startCursor = None\<rparr>
      | Some (edge # rest) \<Rightarrow>
          (let firstEdge = cursor edge;
               lastEdge = cursor (last (edge # rest))
           in case serviceGet service (nodeId edge) of
                None \<Rightarrow> Inl ''payment does not exist''
              | Some firstPayment \<Rightarrow>
                  (let hasNextPagePayments =
                         pageOrEmpty (serviceGetAccountPage service (accountId firstPayment)
                           \<lparr>pageAfter = Some lastEdge, pageBefore = None,
                            pageFirst = Some 1, pageLast = None\<rparr>);
                       hasPreviousPagePayments =
                         pageOrEmpty (serviceGetAccountPage service (accountId firstPayment)
                           \<lparr>pageAfter = None, pageBefore = Some firstEdge,
                            pageFirst = None, pageLast = Some 1\<rparr>)
                   in Inr \<lparr>endCursor = Some lastEdge,
                           hasNextPage = (length hasNextPagePayments = 1),
                           hasPreviousPage = (length hasPreviousPagePayments = 1),
                           startCursor = Some firstEdge\<rparr>)))"

section \<open>The SPSP endpoint\<close>

text \<open>
  What \<^verbatim>\<open>handleSPSP\<close> reads of the request: the path parameter \<^verbatim>\<open>id\<close>, the
  \<^verbatim>\<open>accept\<close> header (\<^verbatim>\<open>ctx.get\<close> gives the empty string for a header that is not
  sent) and the two receipt headers (\<open>None\<close> when the header is not sent).
\<close>

record SpspRequest =
  paramsId :: string
  accept :: string
  receiptNonce :: "string option"
  receiptSecret :: "string option"

record User =
  userId :: string
  userAccountId :: string

text \<open>
  The body of the accounts service's answer, as far as the handler reads it:
  \<^verbatim>\<open>data['disabled']\<close> and \<^verbatim>\<open>data['stream']?.enabled\<close> by their truthiness, and
  \<^verbatim>\<open>data['asset']\<close> (code and scale).
\<close>

record AccountData =
  disabled :: bool
  streamEnabled :: bool
  asset :: "string \<times> nat"

text \<open>
  The request to the accounts service: \<^verbatim>\<open>validateStatus\<close> lets 200 and 404 resolve,
  anything else rejects.
\<close>

datatype AxiosResult = AxiosRejected string | Status404 | Status200 AccountData

text \<open>
  The handler's collaborators, as parameters:
  \<^item> \<open>isUuidV4 s\<close>: \<^verbatim>\<open>uuid.validate(s) && uuid.version(s) === 4\<close>;
  \<^item> \<open>findUser\<close>: \<^verbatim>\<open>User.query().findById\<close>;
  \<^item> \<open>getIlpAccount a\<close>: the request \<^verbatim>\<open>GET /ilp-accounts/a\<close>;
  \<^item> \<open>generateCredentials tag receiptSetup asset\<close>: the STREAM server's function, which
    returns the address and the shared secret, or throws (the message);
  \<^item> \<open>base64\<close>: decoding a header (\<^verbatim>\<open>Buffer.from(s, 'base64')\<close>);
  \<^item> \<open>base64url\<close>: encoding the shared secret.
\<close>

record SpspEnvironment =
  isUuidV4 :: "string \<Rightarrow> bool"
  findUser :: "string \<Rightarrow> User option"
  getIlpAccount :: "string \<Rightarrow> AxiosResult"
  generateCredentials ::
    "string \<Rightarrow> (string \<times> string) option \<Rightarrow> string \<times> nat \<Rightarrow> string + string \<times> string"
  base64 :: "string \<Rightarrow> string"
  base64url :: "string \<Rightarrow> string"

datatype SpspBody =
  InvalidReceiverError
  | SpspCredentials (destination_account: string) (shared_secret: string) (receipts_enabled: bool)

text \<open>
  How the handler ends: \<^verbatim>\<open>ctx.throw(status, message)\<close>, a response (status and body),
  or an exception it does not catch (the rejected request to the accounts service).
\<close>

datatype SpspOutcome =
  Thrown nat string
  | Responded nat SpspBody
  | Uncaught string

text \<open>\<^verbatim>\<open>s.includes(sub)\<close> on strings.\<close>

fun startsWith :: "string \<Rightarrow> string \<Rightarrow> bool" where
  "startsWith s [] = True"
| "startsWith [] (c # cs) = False"
| "startsWith (x # xs) (c # cs) = (x = c \<and> startsWith xs cs)"

fun stringIncludes :: "string \<Rightarrow> string \<Rightarrow> bool" where
  "stringIncludes [] sub = (sub = [])"
| "stringIncludes (x # xs) sub = (startsWith (x # xs) sub \<or> stringIncludes xs sub)"

text \<open>
  \<^verbatim>\<open>nonce && secret ? { nonce: ..., secret: ... } : undefined\<close>, the \<^verbatim>\<open>receiptSetup\<close>
  given to \<^verbatim>\<open>generateCredentials\<close>.
\<close>

definition receiptSetup ::
  "SpspEnvironment \<Rightarrow> string option \<Rightarrow> string option \<Rightarrow> (string \<times> string) option" where
  "receiptSetup env nonce secret =
     (case (nonce, secret) of
        (Some n, Some s) \<Rightarrow>
          if truthy nonce \<and> truthy secret then Some (base64 env n, base64 env s) else None
      | _ \<Rightarrow> None)"

text \<open>
  \<^verbatim>\<open>handleSPSP\<close>. A response whose status the handler does not set has the status 200
  that assigning the body gives it.
\<close>

definition handleSPSP :: "SpspEnvironment \<Rightarrow> SpspRequest \<Rightarrow> SpspOutcome" where
  "handleSPSP env ctx =
     (if \<not> isUuidV4 env (paramsId ctx)
      then Thrown 400 ''Failed to generate credentials: invalid user id''
      else if \<not> stringIncludes (accept ctx) ''application/spsp4+json''
      then Thrown 406
        ''Failed to generate credentials: invalid accept: must support application/spsp4+json''
      else
        (let nonce = receiptNonce ctx;
             secret = receiptSecret ctx
         in if (\<not> truthy nonce) \<noteq> (\<not> truthy secret)
            then Thrown 400
              ''Failed to generate credentials: receipt nonce and secret must accompany each other''
            else
              (case findUser env (paramsId ctx) of
                 None \<Rightarrow> Responded 404 InvalidReceiverError
               | Some user \<Rightarrow>
                   (case getIlpAccount env (userAccountId user) of
                      AxiosRejected msg \<Rightarrow> Uncaught msg
                    | Status404 \<Rightarrow> Responded 404 InvalidReceiverError
                    | Status200 accountData \<Rightarrow>
                        if disabled accountData then Responded 404 InvalidReceiverError
                        else if \<not> streamEnabled accountData
                        then Thrown 400
                          ''Failed to generate credentials: stream is disabled for account''
                        else
                          (case generateCredentials env (userAccountId user)
                                  (receiptSetup env nonce secret) (asset accountData) of
                             Inl msg \<Rightarrow> Thrown 400 msg
                           | Inr (ilpAddress, sharedSecret) \<Rightarrow>
                               Responded 200
                                 (SpspCredentials ilpAddress (base64url env sharedSecret)
                                    (truthy nonce \<and> truthy secret)))))))"

text \<open>
  The mutation \<^verbatim>\<open>createOutgoingPayment\<close> end to end: the resolver over the service's
  \<^verbatim>\<open>create\<close>.
\<close>

definition createOutgoingPayment_mutation ::
  "ServiceDependencies \<Rightarrow> CreateOutgoingPaymentOptions \<Rightarrow> world
     \<Rightarrow> OutgoingPaymentResponse \<times> world" where
  "createOutgoingPayment_mutation deps input w =
     (case createOutgoingPayment deps input w of
        (Inl err, w') \<Rightarrow> (createOutgoingPayment_resolver (Inl err), w')
      | (Inr p, w') \<Rightarrow> (createOutgoingPayment_resolver (Inr (Inr p)), w'))"

text \<open>The \<^verbatim>\<open>receipts_enabled\<close> of the credentials a request was answered with, if it was.\<close>

fun issuedReceiptsEnabled :: "SpspOutcome \<Rightarrow> bool option" where
  "issuedReceiptsEnabled (Responded status (SpspCredentials address secret enabled)) = Some enabled"
| "issuedReceiptsEnabled (Responded status InvalidReceiverError) = None"
| "issuedReceiptsEnabled (Thrown status msg) = None"
| "issuedReceiptsEnabled (Uncaught msg) = None"

section \<open>Concrete inputs\<close>

text \<open>
  A payment that was quoted and then cancelled through the API, in a given state, and
  the table that holds it.
\<close>

definition exampleQuote :: Quote where
  "exampleQuote = \<lparr>timestamp = 1000, activationDeadline = 6000\<rparr>"

definition examplePayment :: "PaymentState \<Rightarrow> OutgoingPayment" where
  "examplePayment st =
     \<lparr>paymentId = ''p1'',
      state = st,
      error = Some (Lifecycle CancelledByAPI),
      stateAttempts = 0,
      intent = \<lparr>paymentPointer = None, invoiceUrl = Some ''https://rcv/invoice/42'',
                amountToSend = None, autoApprove = False\<rparr>,
      quote = Some exampleQuote,
      superAccountId = ''A'',
      sourceAccount = \<lparr>sourceId = ''sub0'', sourceCode = ''USD'', sourceScale = 2\<rparr>,
      destinationAccount =
        Some \<lparr>destinationScale = 2, destinationCode = ''EUR'', destinationUrl = ''https://rcv/bob''\<rparr>,
      accountId = Some ''sub0''\<rparr>"

definition exampleTable :: "PaymentState \<Rightarrow> payments" where
  "exampleTable st = [''p1'' \<mapsto> examplePayment st]"

text \<open>The same payment, cancelled after three attempts, and its table.\<close>

definition cancelledPayment :: OutgoingPayment where
  "cancelledPayment = (examplePayment Cancelled)\<lparr>stateAttempts := 3\<rparr>"

definition cancelledTable :: payments where
  "cancelledTable = [''p1'' \<mapsto> cancelledPayment]"

text \<open>Collaborators that all succeed, and the same with a streaming setup that fails.\<close>

definition exampleDestination :: Destination where
  "exampleDestination =
     \<lparr>destinationAssetScale = 2, destinationAssetCode = ''EUR'', accountUrl = ''https://rcv/bob''\<rparr>"

definition exampleAccount :: Account where
  "exampleAccount = \<lparr>acctId = ''sub1'', assetCode = ''USD'', assetScale = 2\<rparr>"

definition exampleDeps :: ServiceDependencies where
  "exampleDeps =
     \<lparr>pluginConnect = (\<lambda>a. None),
      pluginDisconnect = (\<lambda>a. None),
      setupPayment = (\<lambda>a pointer url. Inr exampleDestination),
      accountServiceCreate = (\<lambda>a. Inr exampleAccount),
      insertId = ''p2''\<rparr>"

definition failingSetupDeps :: ServiceDependencies where
  "failingSetupDeps =
     \<lparr>pluginConnect = (\<lambda>a. None),
      pluginDisconnect = (\<lambda>a. None),
      setupPayment = (\<lambda>a pointer url. Inl InvalidPaymentPointer),
      accountServiceCreate = (\<lambda>a. Inr exampleAccount),
      insertId = ''p2''\<rparr>"

definition emptyWorld :: world where
  "emptyWorld = \<lparr>knex = Map.empty, plugins = [], subAccounts = [], logger = []\<rparr>"

text \<open>Intents: an invoice, a payment pointer with no amount, a payment pointer with amount 0,
  and an invoice together with a payment pointer.\<close>

definition invoiceOptions :: CreateOutgoingPaymentOptions where
  "invoiceOptions =
     \<lparr>paymentPointer = None, invoiceUrl = Some ''https://rcv/invoice/42'',
      amountToSend = None, autoApprove = False, optionsSuperAccountId = ''A''\<rparr>"

definition pointerOnlyOptions :: CreateOutgoingPaymentOptions where
  "pointerOnlyOptions =
     \<lparr>paymentPointer = Some ''$rcv/bob'', invoiceUrl = None,
      amountToSend = None, autoApprove = False, optionsSuperAccountId = ''A''\<rparr>"

definition zeroAmountOptions :: CreateOutgoingPaymentOptions where
  "zeroAmountOptions =
     \<lparr>paymentPointer = Some ''$rcv/bob'', invoiceUrl = None,
      amountToSend = Some 0, autoApprove = True, optionsSuperAccountId = ''A''\<rparr>"

definition bothOptions :: CreateOutgoingPaymentOptions where
  "bothOptions =
     \<lparr>paymentPointer = Some ''$rcv/bob'', invoiceUrl = Some ''https://rcv/invoice/42'',
      amountToSend = Some 1000, autoApprove = False, optionsSuperAccountId = ''A''\<rparr>"

text \<open>
  A service for the page resolver: the account \<^verbatim>\<open>sub0\<close> has the payments \<^verbatim>\<open>p1\<close>,
  \<^verbatim>\<open>p2\<close> and \<^verbatim>\<open>p3\<close>, paged in the order of their ids; \<^verbatim>\<open>p0\<close> is an id before
  them that no stored payment has.
\<close>

definition paymentWithId :: "string \<Rightarrow> OutgoingPayment" where
  "paymentWithId i = (examplePayment Ready)\<lparr>paymentId := i\<rparr>"

definition threePayments :: payments where
  "threePayments =
     [''p1'' \<mapsto> paymentWithId ''p1'', ''p2'' \<mapsto> paymentWithId ''p2'',
      ''p3'' \<mapsto> paymentWithId ''p3'']"

definition examplePage :: "string option \<Rightarrow> Pagination \<Rightarrow> thrown + OutgoingPayment list" where
  "examplePage account pagination =
     (if account \<noteq> Some ''sub0'' then Inr []
      else if pageAfter pagination = Some ''p0'' then Inr [paymentWithId ''p1'']
      else if pageAfter pagination = Some ''p1'' then Inr [paymentWithId ''p2'']
      else if pageAfter pagination = Some ''p2'' then Inr [paymentWithId ''p3'']
      else if pageAfter pagination = Some ''p3'' then Inr []
      else if pageBefore pagination = Some ''p1'' then Inr []
      else if pageBefore pagination = Some ''p2'' then Inr [paymentWithId ''p1'']
      else if pageBefore pagination = Some ''p3'' then Inr [paymentWithId ''p2'']
      else Inl (JsError (ExternalFailure ''bad cursor'')))"

definition exampleService :: OutgoingPaymentService where
  "exampleService =
     \<lparr>serviceGet = threePayments, serviceGetAccountPage = examplePage\<rparr>"

definition exampleEdge :: "string \<Rightarrow> Edge" where
  "exampleEdge i = \<lparr>cursor = i, nodeId = i\<rparr>"

text \<open>
  An SPSP environment in which every check passes, and requests to it. The receipt
  headers are the base64 of a nonce of 16 bytes and of a secret of 32 bytes, the lengths
  the STREAM server accepts.
\<close>

definition nonceHeader :: string where
  "nonceHeader = ''MDEyMzQ1Njc4OWFiY2RlZg==''"

definition secretHeader :: string where
  "secretHeader = ''MDEyMzQ1Njc4OWFiY2RlZjAxMjM0NTY3ODlhYmNkZWY=''"

definition exampleSpspEnv :: SpspEnvironment where
  "exampleSpspEnv =
     \<lparr>isUuidV4 = (\<lambda>s. s = ''3f0e8a8c-5d54-4c0a-9f7b-0d5c2f1f6a11''),
      findUser = (\<lambda>s. Some \<lparr>userId = s, userAccountId = ''acct1''\<rparr>),
      getIlpAccount =
        (\<lambda>a. Status200 \<lparr>disabled = False, streamEnabled = True, asset = (''USD'', 2)\<rparr>),
      generateCredentials =
        (\<lambda>tag setup a.
           case setup of
             None \<Rightarrow> Inr (''test.rafiki.acct1'', ''secret'')
           | Some (n, s) \<Rightarrow>
               if length n = 16 \<and> length s = 32
               then Inr (''test.rafiki.acct1'', ''secret'')
               else Inl ''invalid receipt setup''),
      base64 =
        (\<lambda>s. if s = nonceHeader then ''0123456789abcdef''
             else if s = secretHeader then ''0123456789abcdef0123456789abcdef''
             else []),
      base64url = (\<lambda>s. s)\<rparr>"

definition exampleRequest :: "string \<Rightarrow> string option \<Rightarrow> string option \<Rightarrow> SpspRequest" where
  "exampleRequest acceptHeader nonce secret =
     \<lparr>paramsId = ''3f0e8a8c-5d54-4c0a-9f7b-0d5c2f1f6a11'',
      accept = acceptHeader,
      receiptNonce = nonce,
      receiptSecret = secret\<rparr>"

definition badIdRequest :: "string option \<Rightarrow> string option \<Rightarrow> SpspRequest" where
  "badIdRequest nonce secret =
     \<lparr>paramsId = ''42'',
      accept = ''application/spsp4+json'',
      receiptNonce = nonce,
      receiptSecret = secret\<rparr>"

section \<open>The commands and the state of a payment\<close>

text \<open>
  C1. For every payment whose state is \<^verbatim>\<open>Cancelled\<close>, \<^verbatim>\<open>requote(id)\<close> succeeds and
  resets the row to \<^verbatim>\<open>quote = null\<close>, \<^verbatim>\<open>error = null\<close>, \<^verbatim>\<open>state = Inactive\<close> (the
  initial state, the specification's Quoting) and \<^verbatim>\<open>stateAttempts = 0\<close>, every other
  column staying as it was; for every payment in any other state, \<^verbatim>\<open>requote(id)\<close> fails
  and leaves the table unchanged. The state test, the failure and the new state are the
  source's; the reset of the three other columns is \<open>requoteReset\<close>.
\<close>

theorem requote_resets_row:
  assumes "db i = Some p"
  shows "(state p = Cancelled \<longrightarrow>
            requotePayment db i =
              (Inr (p\<lparr>state := Inactive, quote := None, error := None, stateAttempts := 0\<rparr>),
               db(i \<mapsto> p\<lparr>state := Inactive, quote := None, error := None,
                           stateAttempts := 0\<rparr>)))
       \<and> (state p \<noteq> Cancelled \<longrightarrow>
            requotePayment db i = (Inl (JsError (CannotQuote (state p))), db))"
  using assms by (simp add: requotePayment_def requoteReset_def Let_def)

theorem requote_resets_row_witness:
  "quote cancelledPayment = Some exampleQuote
   \<and> error cancelledPayment = Some (Lifecycle CancelledByAPI)
   \<and> stateAttempts cancelledPayment = 3
   \<and> fst (requotePayment cancelledTable ''p1'') =
       Inr ((examplePayment Inactive)\<lparr>quote := None, error := None\<rparr>)
   \<and> snd (requotePayment cancelledTable ''p1'') ''p1'' =
       Some ((examplePayment Inactive)\<lparr>quote := None, error := None\<rparr>)
   \<and> stateAttempts ((examplePayment Inactive)\<lparr>quote := None, error := None\<rparr>) = 0
   \<and> requotePayment (exampleTable Sending) ''p1'' =
       (Inl (JsError (CannotQuote Sending)), exampleTable Sending)"
  using requote_resets_row [of cancelledTable "''p1''" cancelledPayment]
    requote_resets_row [of "exampleTable Sending" "''p1''" "examplePayment Sending"]
  by (simp add: cancelledTable_def cancelledPayment_def exampleTable_def examplePayment_def)

text \<open>
  C2. \<^verbatim>\<open>approve(id)\<close> succeeds and moves the payment to \<^verbatim>\<open>Activated\<close> exactly when its
  state is \<^verbatim>\<open>Ready\<close>; in every other state it fails with the wrong-state error
  (\<^verbatim>\<open>Cannot approve; payment is in state=...\<close>) and the table is unchanged. Approving
  twice in a row: the second call fails and the payment stays as the first call left it,
  in \<^verbatim>\<open>Activated\<close>.
\<close>

theorem approve_exactly_when_ready:
  assumes "db i = Some p"
  shows "(state p = Ready \<longrightarrow>
            approvePayment db i = (Inr (p\<lparr>state := Activated\<rparr>), db(i \<mapsto> p\<lparr>state := Activated\<rparr>)))
       \<and> (state p \<noteq> Ready \<longrightarrow>
            approvePayment db i = (Inl (JsError (CannotApprove (state p))), db))
       \<and> (state p = Ready \<longrightarrow>
            approvePayment (snd (approvePayment db i)) i =
              (Inl (JsError (CannotApprove Activated)), snd (approvePayment db i))
            \<and> snd (approvePayment db i) i = Some (p\<lparr>state := Activated\<rparr>))"
  using assms by (simp add: approvePayment_def Let_def)

theorem approve_exactly_when_ready_witness:
  "approvePayment (exampleTable Ready) ''p1'' = (Inr (examplePayment Activated), exampleTable Activated)
   \<and> approvePayment (exampleTable Activated) ''p1'' =
       (Inl (JsError (CannotApprove Activated)), exampleTable Activated)
   \<and> approvePayment (snd (approvePayment (exampleTable Ready) ''p1'')) ''p1'' =
       (Inl (JsError (CannotApprove Activated)), exampleTable Activated)"
  using approve_exactly_when_ready [of "exampleTable Ready" "''p1''" "examplePayment Ready"]
    approve_exactly_when_ready [of "exampleTable Activated" "''p1''" "examplePayment Activated"]
  by (simp add: exampleTable_def examplePayment_def)

text \<open>
  C4. \<^verbatim>\<open>cancel(id)\<close> succeeds exactly when the state of the payment is \<^verbatim>\<open>Ready\<close>, and
  then one patch, in the command's transaction, sets \<^verbatim>\<open>state = Cancelling\<close> and
  \<^verbatim>\<open>error = CancelledByAPI\<close>; in every other state it fails and the table is unchanged.
\<close>

theorem cancel_exactly_when_ready:
  assumes "db i = Some p"
  shows "(state p = Ready \<longrightarrow>
            cancelPayment db i =
              (Inr (p\<lparr>state := Cancelling, error := Some (Lifecycle CancelledByAPI)\<rparr>),
               db(i \<mapsto> p\<lparr>state := Cancelling, error := Some (Lifecycle CancelledByAPI)\<rparr>)))
       \<and> (state p \<noteq> Ready \<longrightarrow>
            cancelPayment db i = (Inl (JsError (CannotCancel (state p))), db))"
  using assms by (simp add: cancelPayment_def Let_def)

theorem cancel_exactly_when_ready_witness:
  "cancelPayment (exampleTable Ready) ''p1'' = (Inr (examplePayment Cancelling), exampleTable Cancelling)
   \<and> cancelPayment (exampleTable Inactive) ''p1'' =
       (Inl (JsError (CannotCancel Inactive)), exampleTable Inactive)"
  using cancel_exactly_when_ready [of "exampleTable Ready" "''p1''" "examplePayment Ready"]
    cancel_exactly_when_ready [of "exampleTable Inactive" "''p1''" "examplePayment Inactive"]
  by (simp add: exampleTable_def examplePayment_def)

section \<open>Creating a payment: the paths of \<^verbatim>\<open>createOutgoingPayment\<close>\<close>

text \<open>The four ways the function leaves its first two stages, one lemma each.\<close>

lemma create_rejected_by_guard:
  assumes "truthy (invoiceUrl options) \<and>
           (truthy (paymentPointer options) \<or> amountToSend options \<noteq> None)"
  shows "createOutgoingPayment deps options w =
           (Inl (JsError MutuallyExclusive),
            w\<lparr>logger := logger w @ [''createOutgoingPayment invalid parameters'']\<rparr>)"
  using assms by (simp add: createOutgoingPayment_def)

lemma create_connect_fails:
  assumes "\<not> (truthy (invoiceUrl options) \<and>
           (truthy (paymentPointer options) \<or> amountToSend options \<noteq> None))"
    and "pluginConnect deps (optionsSuperAccountId options) = Some msg"
  shows "createOutgoingPayment deps options w = (Inl (JsError (ExternalFailure msg)), w)"
  using assms by (auto simp add: createOutgoingPayment_def)

lemma create_setup_fails:
  assumes "\<not> (truthy (invoiceUrl options) \<and>
           (truthy (paymentPointer options) \<or> amountToSend options \<noteq> None))"
    and "pluginConnect deps (optionsSuperAccountId options) = None"
    and "setupPayment deps (optionsSuperAccountId options) (paymentPointer options)
           (invoiceUrl options) = Inl e"
  shows "createOutgoingPayment deps options w =
           (Inl (PaymentErr e),
            disconnectPlugin deps (optionsSuperAccountId options)
              (w\<lparr>plugins := plugins w @
                   [Connected (optionsSuperAccountId options),
                    SetupPaymentCalled (optionsSuperAccountId options)]\<rparr>))"
  using assms by (auto simp add: createOutgoingPayment_def promiseFinally_def)

lemma create_setup_succeeds:
  assumes "\<not> (truthy (invoiceUrl options) \<and>
           (truthy (paymentPointer options) \<or> amountToSend options \<noteq> None))"
    and "pluginConnect deps (optionsSuperAccountId options) = None"
    and "setupPayment deps (optionsSuperAccountId options) (paymentPointer options)
           (invoiceUrl options) = Inr d"
  shows "createOutgoingPayment deps options w =
           createSourceAccountAndInsert deps options d
             (disconnectPlugin deps (optionsSuperAccountId options)
               (w\<lparr>plugins := plugins w @
                   [Connected (optionsSuperAccountId options),
                    SetupPaymentCalled (optionsSuperAccountId options)]\<rparr>))"
  using assms by (auto simp add: createOutgoingPayment_def promiseFinally_def)

text \<open>What the statements after the streaming setup do and do not touch.\<close>

lemma plugins_createSourceAccountAndInsert:
  "plugins (snd (createSourceAccountAndInsert deps options d w)) = plugins w"
  by (simp add: createSourceAccountAndInsert_def insertAndFetch_def
      split: sum.splits option.splits)

lemma createSourceAccountAndInsert_not_guard_error:
  "fst (createSourceAccountAndInsert deps options d w) \<noteq> Inl (JsError MutuallyExclusive)"
  by (simp add: createSourceAccountAndInsert_def insertAndFetch_def
      split: sum.splits option.splits)

lemma createSourceAccountAndInsert_Inr:
  assumes "createSourceAccountAndInsert deps options d w = (Inr p, w')"
  shows "destinationAccount p =
           Some \<lparr>destinationScale = destinationAssetScale d,
                 destinationCode = destinationAssetCode d,
                 destinationUrl = accountUrl d\<rparr>
         \<and> knex w' (paymentId p) = Some p \<and> state p = Inactive"
  using assms
  by (auto simp add: createSourceAccountAndInsert_def insertAndFetch_def newPayment_def
      split: sum.splits option.splits)

text \<open>The path on which every collaborator succeeds and the generated key is free.\<close>

lemma create_all_succeed:
  assumes "\<not> (truthy (invoiceUrl options) \<and>
           (truthy (paymentPointer options) \<or> amountToSend options \<noteq> None))"
    and "pluginConnect deps (optionsSuperAccountId options) = None"
    and "setupPayment deps (optionsSuperAccountId options) (paymentPointer options)
           (invoiceUrl options) = Inr d"
    and "accountServiceCreate deps (optionsSuperAccountId options) = Inr a"
    and "knex w (insertId deps) = None"
  shows "fst (createOutgoingPayment deps options w) = Inr (newPayment (insertId deps) options a d)
       \<and> knex (snd (createOutgoingPayment deps options w)) =
           (knex w)(insertId deps \<mapsto> newPayment (insertId deps) options a d)"
  using assms
  by (simp add: create_setup_succeeds createSourceAccountAndInsert_def insertAndFetch_def
      disconnectPlugin_def newPayment_def)

text \<open>
  C3 (as amended). \<^verbatim>\<open>create\<close> rejects an intent at its guard, with the error
  \<^verbatim>\<open>invoiceUrl and (paymentPointer,amountToSend) are mutually exclusive\<close>, exactly when
  \<^verbatim>\<open>invoiceUrl\<close> is present (and not empty) together with a non-empty
  \<^verbatim>\<open>paymentPointer\<close> or any \<^verbatim>\<open>amountToSend\<close>; then no payment is persisted, no plugin
  is opened and no sub-account is created. Every other intent passes the guard,
  also one with neither an invoice nor a complete pointer and amount, and is persisted
  once the plugin connects, the streaming setup and the account creation succeed and
  the generated key is free.
\<close>

theorem create_rejects_exactly_conflicting_intents:
  "(fst (createOutgoingPayment deps options w) = Inl (JsError MutuallyExclusive)) =
     (truthy (invoiceUrl options) \<and>
       (truthy (paymentPointer options) \<or> amountToSend options \<noteq> None))
   \<and> (fst (createOutgoingPayment deps options w) = Inl (JsError MutuallyExclusive) \<longrightarrow>
        knex (snd (createOutgoingPayment deps options w)) = knex w
        \<and> plugins (snd (createOutgoingPayment deps options w)) = plugins w
        \<and> subAccounts (snd (createOutgoingPayment deps options w)) = subAccounts w)
   \<and> (\<not> (truthy (invoiceUrl options) \<and>
          (truthy (paymentPointer options) \<or> amountToSend options \<noteq> None))
      \<and> pluginConnect deps (optionsSuperAccountId options) = None
      \<and> setupPayment deps (optionsSuperAccountId options) (paymentPointer options)
           (invoiceUrl options) = Inr d
      \<and> accountServiceCreate deps (optionsSuperAccountId options) = Inr a
      \<and> knex w (insertId deps) = None \<longrightarrow>
        fst (createOutgoingPayment deps options w) = Inr (newPayment (insertId deps) options a d)
        \<and> knex (snd (createOutgoingPayment deps options w)) =
            (knex w)(insertId deps \<mapsto> newPayment (insertId deps) options a d))"
proof -
  let ?guard = "truthy (invoiceUrl options) \<and>
       (truthy (paymentPointer options) \<or> amountToSend options \<noteq> None)"
  have eq: "(fst (createOutgoingPayment deps options w) = Inl (JsError MutuallyExclusive)) = ?guard"
  proof (cases ?guard)
    case True
    then show ?thesis by (simp add: create_rejected_by_guard)
  next
    case False
    show ?thesis
    proof (cases "pluginConnect deps (optionsSuperAccountId options)")
      case (Some msg)
      with False show ?thesis by (simp add: create_connect_fails)
    next
      case None
      show ?thesis
      proof (cases "setupPayment deps (optionsSuperAccountId options) (paymentPointer options)
           (invoiceUrl options)")
        case (Inl e)
        with False None show ?thesis by (simp add: create_setup_fails)
      next
        case (Inr d')
        with False None show ?thesis
          by (simp add: create_setup_succeeds createSourceAccountAndInsert_not_guard_error)
      qed
    qed
  qed
  have frame: "?guard \<Longrightarrow>
        knex (snd (createOutgoingPayment deps options w)) = knex w
        \<and> plugins (snd (createOutgoingPayment deps options w)) = plugins w
        \<and> subAccounts (snd (createOutgoingPayment deps options w)) = subAccounts w"
    by (simp add: create_rejected_by_guard)
  from eq frame create_all_succeed [of options deps d a w] show ?thesis by blast
qed

theorem create_rejects_exactly_conflicting_intents_witness:
  "fst (createOutgoingPayment exampleDeps bothOptions emptyWorld) = Inl (JsError MutuallyExclusive)
   \<and> knex (snd (createOutgoingPayment exampleDeps bothOptions emptyWorld)) = knex emptyWorld
   \<and> plugins (snd (createOutgoingPayment exampleDeps bothOptions emptyWorld)) = []
   \<and> fst (createOutgoingPayment exampleDeps invoiceOptions emptyWorld) =
       Inr (newPayment ''p2'' invoiceOptions exampleAccount exampleDestination)
   \<and> knex (snd (createOutgoingPayment exampleDeps invoiceOptions emptyWorld)) =
       [''p2'' \<mapsto> newPayment ''p2'' invoiceOptions exampleAccount exampleDestination]"
  using create_rejects_exactly_conflicting_intents
      [of exampleDeps bothOptions emptyWorld exampleDestination exampleAccount]
    create_rejects_exactly_conflicting_intents
      [of exampleDeps invoiceOptions emptyWorld exampleDestination exampleAccount]
  by (simp add: exampleDeps_def bothOptions_def invoiceOptions_def emptyWorld_def truthy_def)

text \<open>
  C3 as stated fails: an intent with a payment pointer, no amount and no invoice has
  neither of the two alternatives, and \<^verbatim>\<open>create\<close> persists a payment for it.
\<close>

theorem create_accepts_pointer_without_amount_counterexample:
  "paymentPointer pointerOnlyOptions = Some ''$rcv/bob''
   \<and> amountToSend pointerOnlyOptions = None
   \<and> invoiceUrl pointerOnlyOptions = None
   \<and> fst (createOutgoingPayment exampleDeps pointerOnlyOptions emptyWorld) =
       Inr (newPayment ''p2'' pointerOnlyOptions exampleAccount exampleDestination)
   \<and> knex (snd (createOutgoingPayment exampleDeps pointerOnlyOptions emptyWorld)) ''p2'' =
       Some (newPayment ''p2'' pointerOnlyOptions exampleAccount exampleDestination)"
  by (simp add: createOutgoingPayment_def promiseFinally_def disconnectPlugin_def
      createSourceAccountAndInsert_def insertAndFetch_def newPayment_def
      exampleDeps_def pointerOnlyOptions_def emptyWorld_def truthy_def)


text \<open>
  C6 (as amended). The fields of \<^verbatim>\<open>destinationAccount\<close> (scale, code, url) are captured
  by \<^verbatim>\<open>create\<close>, from the destination the streaming setup resolved with: every payment
  \<^verbatim>\<open>create\<close> returns is stored in state \<^verbatim>\<open>Inactive\<close> with \<^verbatim>\<open>destinationAccount\<close>
  set to that destination's asset scale, asset code and account URL.
\<close>

theorem create_captures_destination:
  assumes "createOutgoingPayment deps options w = (Inr p, w')"
  shows "(case setupPayment deps (optionsSuperAccountId options) (paymentPointer options)
                 (invoiceUrl options) of
            Inl e \<Rightarrow> False
          | Inr d \<Rightarrow>
              destinationAccount p =
                Some \<lparr>destinationScale = destinationAssetScale d,
                      destinationCode = destinationAssetCode d,
                      destinationUrl = accountUrl d\<rparr>)
         \<and> knex w' (paymentId p) = Some p
         \<and> state p = Inactive"
proof -
  let ?guard = "truthy (invoiceUrl options) \<and>
       (truthy (paymentPointer options) \<or> amountToSend options \<noteq> None)"
  let ?a = "optionsSuperAccountId options"
  have ng: "\<not> ?guard"
  proof
    assume ?guard
    from create_rejected_by_guard [OF this, of deps w] assms show False by simp
  qed
  from assms ng have conn: "pluginConnect deps ?a = None"
    by (cases "pluginConnect deps ?a") (auto simp add: create_connect_fails)
  show ?thesis
  proof (cases "setupPayment deps ?a (paymentPointer options) (invoiceUrl options)")
    case (Inl e)
    with assms ng conn show ?thesis by (simp add: create_setup_fails)
  next
    case (Inr d)
    with assms ng conn have
      "createSourceAccountAndInsert deps options d
         (disconnectPlugin deps ?a
           (w\<lparr>plugins := plugins w @ [Connected ?a, SetupPaymentCalled ?a]\<rparr>)) = (Inr p, w')"
      by (simp add: create_setup_succeeds)
    from createSourceAccountAndInsert_Inr [OF this] Inr show ?thesis by simp
  qed
qed

theorem create_captures_destination_witness:
  "createOutgoingPayment exampleDeps invoiceOptions emptyWorld =
     (Inr (newPayment ''p2'' invoiceOptions exampleAccount exampleDestination),
      \<lparr>knex = [''p2'' \<mapsto> newPayment ''p2'' invoiceOptions exampleAccount exampleDestination],
       plugins = [Connected ''A'', SetupPaymentCalled ''A'', DisconnectCalled ''A''],
       subAccounts = [''sub1''],
       logger = []\<rparr>)
   \<and> destinationAccount (newPayment ''p2'' invoiceOptions exampleAccount exampleDestination) =
       Some \<lparr>destinationScale = 2, destinationCode = ''EUR'', destinationUrl = ''https://rcv/bob''\<rparr>"
proof -
  have run: "createOutgoingPayment exampleDeps invoiceOptions emptyWorld =
     (Inr (newPayment ''p2'' invoiceOptions exampleAccount exampleDestination),
      \<lparr>knex = [''p2'' \<mapsto> newPayment ''p2'' invoiceOptions exampleAccount exampleDestination],
       plugins = [Connected ''A'', SetupPaymentCalled ''A'', DisconnectCalled ''A''],
       subAccounts = [''sub1''],
       logger = []\<rparr>)"
    by (simp add: createOutgoingPayment_def promiseFinally_def disconnectPlugin_def
        createSourceAccountAndInsert_def insertAndFetch_def newPayment_def
        exampleDeps_def invoiceOptions_def emptyWorld_def truthy_def exampleAccount_def)
  from create_captures_destination [OF run] run show ?thesis
    by (simp add: exampleDeps_def exampleDestination_def)
qed

text \<open>
  C6 as stated fails: immediately after \<^verbatim>\<open>create\<close> returns, the stored payment has its
  \<^verbatim>\<open>destinationAccount\<close> set.
\<close>

theorem create_sets_destination_counterexample:
  "fst (createOutgoingPayment exampleDeps invoiceOptions emptyWorld) =
     Inr (newPayment ''p2'' invoiceOptions exampleAccount exampleDestination)
   \<and> destinationAccount (newPayment ''p2'' invoiceOptions exampleAccount exampleDestination) =
       Some \<lparr>destinationScale = 2, destinationCode = ''EUR'', destinationUrl = ''https://rcv/bob''\<rparr>
   \<and> knex (snd (createOutgoingPayment exampleDeps invoiceOptions emptyWorld)) ''p2'' =
       Some (newPayment ''p2'' invoiceOptions exampleAccount exampleDestination)"
  by (simp add: createOutgoingPayment_def promiseFinally_def disconnectPlugin_def
      createSourceAccountAndInsert_def insertAndFetch_def newPayment_def
      exampleDeps_def invoiceOptions_def emptyWorld_def truthy_def exampleDestination_def)

text \<open>
  C7 (as amended). \<^verbatim>\<open>create\<close> never reads the value of \<^verbatim>\<open>amountToSend\<close>, only
  whether it is defined: an intent with \<^verbatim>\<open>amountToSend = 0\<close> is rejected at the guard,
  persisting nothing, exactly when it also has an \<^verbatim>\<open>invoiceUrl\<close>; without one it passes
  the guard, and when the plugin connects, the streaming setup and the account creation
  succeed and the generated key is free, the payment is persisted in state
  \<^verbatim>\<open>Inactive\<close> with \<^verbatim>\<open>amountToSend = 0\<close>.
\<close>

theorem create_zero_amount:
  assumes "amountToSend options = Some 0"
  shows "(fst (createOutgoingPayment deps options w) = Inl (JsError MutuallyExclusive)) =
           truthy (invoiceUrl options)
       \<and> (truthy (invoiceUrl options) \<longrightarrow>
            knex (snd (createOutgoingPayment deps options w)) = knex w)
       \<and> (\<not> truthy (invoiceUrl options)
          \<and> pluginConnect deps (optionsSuperAccountId options) = None
          \<and> setupPayment deps (optionsSuperAccountId options) (paymentPointer options)
               (invoiceUrl options) = Inr d
          \<and> accountServiceCreate deps (optionsSuperAccountId options) = Inr a
          \<and> knex w (insertId deps) = None \<longrightarrow>
            fst (createOutgoingPayment deps options w) =
              Inr (newPayment (insertId deps) options a d)
            \<and> knex (snd (createOutgoingPayment deps options w)) (insertId deps) =
              Some (newPayment (insertId deps) options a d)
            \<and> amountToSend (intent (newPayment (insertId deps) options a d)) = Some 0
            \<and> state (newPayment (insertId deps) options a d) = Inactive)"
proof -
  let ?guard = "truthy (invoiceUrl options) \<and>
       (truthy (paymentPointer options) \<or> amountToSend options \<noteq> None)"
  from assms have g: "?guard = truthy (invoiceUrl options)" by simp
  have rej: "truthy (invoiceUrl options) \<Longrightarrow>
      createOutgoingPayment deps options w =
        (Inl (JsError MutuallyExclusive),
         w\<lparr>logger := logger w @ [''createOutgoingPayment invalid parameters'']\<rparr>)"
    using g create_rejected_by_guard [of options deps w] by blast
  have acc: "\<not> truthy (invoiceUrl options) \<Longrightarrow>
      fst (createOutgoingPayment deps options w) \<noteq> Inl (JsError MutuallyExclusive)"
  proof -
    assume nt: "\<not> truthy (invoiceUrl options)"
    then have ng: "\<not> ?guard" by simp
    show ?thesis
    proof (cases "pluginConnect deps (optionsSuperAccountId options)")
      case (Some msg)
      with ng show ?thesis by (simp add: create_connect_fails)
    next
      case None
      show ?thesis
      proof (cases "setupPayment deps (optionsSuperAccountId options) (paymentPointer options)
           (invoiceUrl options)")
        case (Inl e)
        with ng None show ?thesis by (simp add: create_setup_fails)
      next
        case (Inr d')
        with ng None show ?thesis
          by (simp add: create_setup_succeeds createSourceAccountAndInsert_not_guard_error)
      qed
    qed
  qed
  have ok: "\<not> truthy (invoiceUrl options) \<Longrightarrow>
          pluginConnect deps (optionsSuperAccountId options) = None \<Longrightarrow>
          setupPayment deps (optionsSuperAccountId options) (paymentPointer options)
               (invoiceUrl options) = Inr d \<Longrightarrow>
          accountServiceCreate deps (optionsSuperAccountId options) = Inr a \<Longrightarrow>
          knex w (insertId deps) = None \<Longrightarrow>
            fst (createOutgoingPayment deps options w) =
              Inr (newPayment (insertId deps) options a d)
            \<and> knex (snd (createOutgoingPayment deps options w)) (insertId deps) =
              Some (newPayment (insertId deps) options a d)"
    using create_all_succeed [of options deps d a w] by simp
  have am: "amountToSend (intent (newPayment (insertId deps) options a d)) = Some 0
            \<and> state (newPayment (insertId deps) options a d) = Inactive"
    using assms by (simp add: newPayment_def)
  from rej acc ok am show ?thesis by (cases "truthy (invoiceUrl options)") auto
qed

theorem create_zero_amount_witness:
  "fst (createOutgoingPayment exampleDeps zeroAmountOptions emptyWorld) =
     Inr (newPayment ''p2'' zeroAmountOptions exampleAccount exampleDestination)
   \<and> knex (snd (createOutgoingPayment exampleDeps zeroAmountOptions emptyWorld)) ''p2'' =
       Some (newPayment ''p2'' zeroAmountOptions exampleAccount exampleDestination)
   \<and> amountToSend (intent (newPayment ''p2'' zeroAmountOptions exampleAccount exampleDestination))
       = Some 0"
  using create_zero_amount
      [of zeroAmountOptions exampleDeps emptyWorld exampleDestination exampleAccount]
  by (simp add: exampleDeps_def zeroAmountOptions_def emptyWorld_def truthy_def)

text \<open>
  C7 as stated fails: an intent with a payment pointer and \<^verbatim>\<open>amountToSend = 0\<close> is
  accepted and persisted.
\<close>

theorem create_accepts_zero_amount_counterexample:
  "amountToSend zeroAmountOptions = Some 0
   \<and> fst (createOutgoingPayment exampleDeps zeroAmountOptions emptyWorld) =
       Inr (newPayment ''p2'' zeroAmountOptions exampleAccount exampleDestination)
   \<and> knex (snd (createOutgoingPayment exampleDeps zeroAmountOptions emptyWorld)) ''p2'' =
       Some (newPayment ''p2'' zeroAmountOptions exampleAccount exampleDestination)"
  by (simp add: createOutgoingPayment_def promiseFinally_def disconnectPlugin_def
      createSourceAccountAndInsert_def insertAndFetch_def newPayment_def
      exampleDeps_def zeroAmountOptions_def emptyWorld_def truthy_def)

text \<open>
  C9. During \<^verbatim>\<open>create\<close>, \<^verbatim>\<open>disconnect()\<close> is called on the plugin that was connected
  for the payment on every exit path of the \<^verbatim>\<open>setupPayment\<close> call, when it resolves and
  when it rejects: whenever the guard passes and the plugin connects, the calls on the
  plugin are connect, setup, disconnect, and in no other case is a plugin connected. A
  setup that fails rejects \<^verbatim>\<open>create\<close> with its \<^verbatim>\<open>PaymentError\<close>, stores nothing and
  leaves no connected plugin behind.
\<close>

theorem create_disconnects_plugin:
  "plugins (snd (createOutgoingPayment deps options w)) =
     plugins w @
       (if (truthy (invoiceUrl options) \<and>
             (truthy (paymentPointer options) \<or> amountToSend options \<noteq> None))
           \<or> pluginConnect deps (optionsSuperAccountId options) \<noteq> None
        then []
        else [Connected (optionsSuperAccountId options),
              SetupPaymentCalled (optionsSuperAccountId options),
              DisconnectCalled (optionsSuperAccountId options)])
   \<and> (\<not> (truthy (invoiceUrl options) \<and>
          (truthy (paymentPointer options) \<or> amountToSend options \<noteq> None))
      \<and> pluginConnect deps (optionsSuperAccountId options) = None
      \<and> setupPayment deps (optionsSuperAccountId options) (paymentPointer options)
           (invoiceUrl options) = Inl e \<longrightarrow>
        fst (createOutgoingPayment deps options w) = Inl (PaymentErr e)
        \<and> knex (snd (createOutgoingPayment deps options w)) = knex w)"
proof -
  let ?guard = "truthy (invoiceUrl options) \<and>
       (truthy (paymentPointer options) \<or> amountToSend options \<noteq> None)"
  let ?a = "optionsSuperAccountId options"
  have trace: "plugins (snd (createOutgoingPayment deps options w)) =
     plugins w @
       (if ?guard \<or> pluginConnect deps ?a \<noteq> None then []
        else [Connected ?a, SetupPaymentCalled ?a, DisconnectCalled ?a])"
  proof (cases ?guard)
    case True
    then show ?thesis by (simp add: create_rejected_by_guard)
  next
    case False
    show ?thesis
    proof (cases "pluginConnect deps ?a")
      case (Some msg)
      with False show ?thesis by (simp add: create_connect_fails)
    next
      case None
      show ?thesis
      proof (cases "setupPayment deps ?a (paymentPointer options) (invoiceUrl options)")
        case (Inl e')
        with False None show ?thesis
          by (simp add: create_setup_fails disconnectPlugin_def)
      next
        case (Inr d)
        with False None show ?thesis
          by (simp add: create_setup_succeeds plugins_createSourceAccountAndInsert
              disconnectPlugin_def)
      qed
    qed
  qed
  have failing: "\<not> ?guard \<Longrightarrow> pluginConnect deps ?a = None \<Longrightarrow>
      setupPayment deps ?a (paymentPointer options) (invoiceUrl options) = Inl e \<Longrightarrow>
        fst (createOutgoingPayment deps options w) = Inl (PaymentErr e)
        \<and> knex (snd (createOutgoingPayment deps options w)) = knex w"
    by (simp add: create_setup_fails disconnectPlugin_def)
  from trace failing show ?thesis by blast
qed

theorem create_disconnects_plugin_witness:
  "plugins (snd (createOutgoingPayment failingSetupDeps pointerOnlyOptions emptyWorld)) =
     [Connected ''A'', SetupPaymentCalled ''A'', DisconnectCalled ''A'']
   \<and> fst (createOutgoingPayment failingSetupDeps pointerOnlyOptions emptyWorld) =
       Inl (PaymentErr InvalidPaymentPointer)
   \<and> plugins (snd (createOutgoingPayment exampleDeps pointerOnlyOptions emptyWorld)) =
     [Connected ''A'', SetupPaymentCalled ''A'', DisconnectCalled ''A'']"
  using create_disconnects_plugin
      [of failingSetupDeps pointerOnlyOptions emptyWorld InvalidPaymentPointer]
    create_disconnects_plugin
      [of exampleDeps pointerOnlyOptions emptyWorld InvalidPaymentPointer]
  by (simp add: exampleDeps_def failingSetupDeps_def pointerOnlyOptions_def emptyWorld_def
      truthy_def)

section \<open>The response of the create mutation\<close>

text \<open>The code of the response to a rejection with a \<^verbatim>\<open>PaymentError\<close> is read off the table.\<close>

lemma resolver_code_of_payment_error:
  "code (createOutgoingPayment_resolver (Inl (PaymentErr e))) =
     (if clientErrors e then ''400'' else ''500'')"
  by (simp add: createOutgoingPayment_resolver_def)

text \<open>
  C5. For every \<^verbatim>\<open>PaymentError\<close> that \<^verbatim>\<open>create\<close> rejects with, the code of the response
  is \<^verbatim>\<open>'400'\<close> exactly when the error is one of \<^verbatim>\<open>InvalidPaymentPointer\<close>,
  \<^verbatim>\<open>InvalidCredentials\<close>, \<^verbatim>\<open>UnknownSourceAsset\<close>, \<^verbatim>\<open>UnknownPaymentTarget\<close>,
  \<^verbatim>\<open>InvalidSourceAmount\<close>, \<^verbatim>\<open>InvalidDestinationAmount\<close>, \<^verbatim>\<open>UnenforceableDelivery\<close>,
  \<^verbatim>\<open>QueryFailed\<close>, and \<^verbatim>\<open>'500'\<close> exactly when it is one of the fifteen others. In
  particular, when the streaming setup inside the service's \<^verbatim>\<open>create\<close> rejects with the
  error, the mutation answers with that code and \<^verbatim>\<open>success = false\<close>.
\<close>

theorem create_response_code:
  "(code (createOutgoingPayment_resolver (Inl (PaymentErr e))) = ''400'') =
     (e \<in> {InvalidPaymentPointer, InvalidCredentials, UnknownSourceAsset, UnknownPaymentTarget,
            InvalidSourceAmount, InvalidDestinationAmount, UnenforceableDelivery, QueryFailed})
   \<and> (code (createOutgoingPayment_resolver (Inl (PaymentErr e))) = ''500'') =
     (e \<in> {InvalidSlippage, InvalidQuote, InvoiceAlreadyPaid, ConnectorError,
            EstablishmentFailed, UnknownDestinationAsset, DestinationAssetConflict,
            ExternalRateUnavailable, RateProbeFailed, InsufficientExchangeRate, IdleTimeout,
            ClosedByReceiver, IncompatibleReceiveMax, ReceiverProtocolViolation,
            MaxSafeEncryptionLimit})
   \<and> (\<not> (truthy (invoiceUrl input) \<and>
          (truthy (paymentPointer input) \<or> amountToSend input \<noteq> None))
      \<and> pluginConnect deps (optionsSuperAccountId input) = None
      \<and> setupPayment deps (optionsSuperAccountId input) (paymentPointer input)
           (invoiceUrl input) = Inl e \<longrightarrow>
        code (fst (createOutgoingPayment_mutation deps input w)) =
          (if clientErrors e then ''400'' else ''500'')
        \<and> success (fst (createOutgoingPayment_mutation deps input w)) = False)"
proof -
  have c400: "(code (createOutgoingPayment_resolver (Inl (PaymentErr e))) = ''400'') =
     (e \<in> {InvalidPaymentPointer, InvalidCredentials, UnknownSourceAsset, UnknownPaymentTarget,
            InvalidSourceAmount, InvalidDestinationAmount, UnenforceableDelivery, QueryFailed})"
    unfolding resolver_code_of_payment_error by (cases e) simp_all
  have c500: "(code (createOutgoingPayment_resolver (Inl (PaymentErr e))) = ''500'') =
     (e \<in> {InvalidSlippage, InvalidQuote, InvoiceAlreadyPaid, ConnectorError,
            EstablishmentFailed, UnknownDestinationAsset, DestinationAssetConflict,
            ExternalRateUnavailable, RateProbeFailed, InsufficientExchangeRate, IdleTimeout,
            ClosedByReceiver, IncompatibleReceiveMax, ReceiverProtocolViolation,
            MaxSafeEncryptionLimit})"
    unfolding resolver_code_of_payment_error by (cases e) simp_all
  have mut: "\<not> (truthy (invoiceUrl input) \<and>
          (truthy (paymentPointer input) \<or> amountToSend input \<noteq> None)) \<Longrightarrow>
      pluginConnect deps (optionsSuperAccountId input) = None \<Longrightarrow>
      setupPayment deps (optionsSuperAccountId input) (paymentPointer input)
           (invoiceUrl input) = Inl e \<Longrightarrow>
        code (fst (createOutgoingPayment_mutation deps input w)) =
          (if clientErrors e then ''400'' else ''500'')
        \<and> success (fst (createOutgoingPayment_mutation deps input w)) = False"
    by (simp add: createOutgoingPayment_mutation_def create_setup_fails
        createOutgoingPayment_resolver_def)
  from c400 c500 mut show ?thesis by blast
qed

theorem create_response_code_witness:
  "code (createOutgoingPayment_resolver (Inl (PaymentErr QueryFailed))) = ''400''
   \<and> code (createOutgoingPayment_resolver (Inl (PaymentErr InvalidQuote))) = ''500''
   \<and> code (fst (createOutgoingPayment_mutation failingSetupDeps pointerOnlyOptions emptyWorld))
       = ''400''"
  using create_response_code [of QueryFailed pointerOnlyOptions failingSetupDeps emptyWorld]
    create_response_code [of InvalidQuote pointerOnlyOptions failingSetupDeps emptyWorld]
    create_response_code [of InvalidPaymentPointer pointerOnlyOptions failingSetupDeps emptyWorld]
  by (simp add: failingSetupDeps_def pointerOnlyOptions_def emptyWorld_def truthy_def)

section \<open>Paging\<close>

text \<open>
  C8 (as amended). The \<^verbatim>\<open>pageInfo\<close> resolver decides paging by probing for one more
  payment. For missing or empty edges both flags are false. For a non-empty list of
  edges, when the payment of the first edge is not found the resolver throws
  \<^verbatim>\<open>payment does not exist\<close> and gives no page information; when it is found, the
  probes are made for its account, \<^verbatim>\<open>hasNextPage\<close> is true exactly when the page of
  size 1 after the cursor of the last edge holds exactly one payment, and
  \<^verbatim>\<open>hasPreviousPage\<close> exactly when the page of size 1 before the cursor of the first
  edge holds exactly one payment; a probe that rejects counts as an empty page.
\<close>

theorem pageInfo_one_more_probe:
  "getOutgoingPaymentPageInfo service None =
     Inr \<lparr>endCursor = None, hasNextPage = False, hasPreviousPage = False, startCursor = None\<rparr>
   \<and> getOutgoingPaymentPageInfo service (Some []) =
     Inr \<lparr>endCursor = None, hasNextPage = False, hasPreviousPage = False, startCursor = None\<rparr>
   \<and> (edges \<noteq> [] \<and> serviceGet service (nodeId (hd edges)) = None \<longrightarrow>
        getOutgoingPaymentPageInfo service (Some edges) = Inl ''payment does not exist'')
   \<and> (edges \<noteq> [] \<and> serviceGet service (nodeId (hd edges)) = Some firstPayment \<longrightarrow>
        getOutgoingPaymentPageInfo service (Some edges) =
          Inr \<lparr>endCursor = Some (cursor (last edges)),
               hasNextPage =
                 (\<exists>p. serviceGetAccountPage service (accountId firstPayment)
                         \<lparr>pageAfter = Some (cursor (last edges)), pageBefore = None,
                          pageFirst = Some 1, pageLast = None\<rparr> = Inr [p]),
               hasPreviousPage =
                 (\<exists>p. serviceGetAccountPage service (accountId firstPayment)
                         \<lparr>pageAfter = None, pageBefore = Some (cursor (hd edges)),
                          pageFirst = None, pageLast = Some 1\<rparr> = Inr [p]),
               startCursor = Some (cursor (hd edges))\<rparr>)"
proof -
  have one: "\<And>settled. (length (pageOrEmpty settled) = Suc 0) = (\<exists>p. settled = Inr [p])"
    by (auto simp add: pageOrEmpty_def length_Suc_conv split: sum.splits)
  have missing: "edges \<noteq> [] \<Longrightarrow> serviceGet service (nodeId (hd edges)) = None \<Longrightarrow>
        getOutgoingPaymentPageInfo service (Some edges) = Inl ''payment does not exist''"
  proof -
    assume ne: "edges \<noteq> []" and g: "serviceGet service (nodeId (hd edges)) = None"
    from ne obtain edge rest where e: "edges = edge # rest" by (cases edges) auto
    from g show ?thesis
      unfolding e getOutgoingPaymentPageInfo_def
      by (simp add: Let_def del: last.simps)
  qed
  have nonempty: "edges \<noteq> [] \<Longrightarrow> serviceGet service (nodeId (hd edges)) = Some firstPayment \<Longrightarrow>
        getOutgoingPaymentPageInfo service (Some edges) =
          Inr \<lparr>endCursor = Some (cursor (last edges)),
               hasNextPage =
                 (\<exists>p. serviceGetAccountPage service (accountId firstPayment)
                         \<lparr>pageAfter = Some (cursor (last edges)), pageBefore = None,
                          pageFirst = Some 1, pageLast = None\<rparr> = Inr [p]),
               hasPreviousPage =
                 (\<exists>p. serviceGetAccountPage service (accountId firstPayment)
                         \<lparr>pageAfter = None, pageBefore = Some (cursor (hd edges)),
                          pageFirst = None, pageLast = Some 1\<rparr> = Inr [p]),
               startCursor = Some (cursor (hd edges))\<rparr>"
  proof -
    assume ne: "edges \<noteq> []" and g: "serviceGet service (nodeId (hd edges)) = Some firstPayment"
    from ne obtain edge rest where e: "edges = edge # rest" by (cases edges) auto
    from g show ?thesis
      unfolding e getOutgoingPaymentPageInfo_def
      by (simp add: one Let_def del: last.simps)
  qed
  have empty: "getOutgoingPaymentPageInfo service None =
     Inr \<lparr>endCursor = None, hasNextPage = False, hasPreviousPage = False, startCursor = None\<rparr>
   \<and> getOutgoingPaymentPageInfo service (Some []) =
     Inr \<lparr>endCursor = None, hasNextPage = False, hasPreviousPage = False, startCursor = None\<rparr>"
    by (simp add: getOutgoingPaymentPageInfo_def)
  from empty missing nonempty show ?thesis by blast
qed

theorem pageInfo_one_more_probe_witness:
  "getOutgoingPaymentPageInfo exampleService (Some [exampleEdge ''p1'', exampleEdge ''p2'']) =
     Inr \<lparr>endCursor = Some ''p2'', hasNextPage = True, hasPreviousPage = False,
          startCursor = Some ''p1''\<rparr>
   \<and> getOutgoingPaymentPageInfo exampleService (Some [exampleEdge ''p2'', exampleEdge ''p3'']) =
     Inr \<lparr>endCursor = Some ''p3'', hasNextPage = False, hasPreviousPage = True,
          startCursor = Some ''p2''\<rparr>
   \<and> getOutgoingPaymentPageInfo exampleService (Some [exampleEdge ''p0'']) =
     Inl ''payment does not exist''"
  using pageInfo_one_more_probe
      [of exampleService "[exampleEdge ''p1'', exampleEdge ''p2'']" "paymentWithId ''p1''"]
    pageInfo_one_more_probe
      [of exampleService "[exampleEdge ''p2'', exampleEdge ''p3'']" "paymentWithId ''p2''"]
    pageInfo_one_more_probe
      [of exampleService "[exampleEdge ''p0'']" "paymentWithId ''p0''"]
  by (simp add: exampleService_def threePayments_def examplePage_def exampleEdge_def
      paymentWithId_def examplePayment_def)

text \<open>
  C8 as stated fails: for the one edge of a payment that is not found, the page of
  size 1 after its cursor holds exactly one payment, and the resolver throws instead of
  answering \<^verbatim>\<open>hasNextPage = true\<close>.
\<close>

theorem pageInfo_throws_counterexample:
  "serviceGet exampleService (nodeId (exampleEdge ''p0'')) = None
   \<and> serviceGetAccountPage exampleService (Some ''sub0'')
       \<lparr>pageAfter = Some (cursor (exampleEdge ''p0'')), pageBefore = None,
        pageFirst = Some 1, pageLast = None\<rparr> = Inr [paymentWithId ''p1'']
   \<and> getOutgoingPaymentPageInfo exampleService (Some [exampleEdge ''p0'']) =
       Inl ''payment does not exist''"
  by (simp add: getOutgoingPaymentPageInfo_def exampleService_def threePayments_def
      examplePage_def exampleEdge_def)

section \<open>Receipt headers of an SPSP request\<close>

text \<open>
  The checks of the handler in their order: the id, the accept header, the receipt
  headers; and credentials are issued only when the two receipt headers agree.
\<close>

lemma handleSPSP_bad_id:
  assumes "\<not> isUuidV4 env (paramsId ctx)"
  shows "handleSPSP env ctx = Thrown 400 ''Failed to generate credentials: invalid user id''"
  using assms by (simp add: handleSPSP_def)

lemma handleSPSP_bad_accept:
  assumes "isUuidV4 env (paramsId ctx)"
    and "\<not> stringIncludes (accept ctx) ''application/spsp4+json''"
  shows "handleSPSP env ctx =
    Thrown 406
      ''Failed to generate credentials: invalid accept: must support application/spsp4+json''"
  using assms by (simp add: handleSPSP_def)

lemma handleSPSP_one_receipt_header:
  assumes "isUuidV4 env (paramsId ctx)"
    and "stringIncludes (accept ctx) ''application/spsp4+json''"
    and "truthy (receiptNonce ctx) \<noteq> truthy (receiptSecret ctx)"
  shows "handleSPSP env ctx =
    Thrown 400
      ''Failed to generate credentials: receipt nonce and secret must accompany each other''"
  using assms by (simp add: handleSPSP_def Let_def)

lemma handleSPSP_issued:
  assumes "issuedReceiptsEnabled (handleSPSP env ctx) = Some enabled"
  shows "truthy (receiptNonce ctx) = truthy (receiptSecret ctx)
       \<and> enabled = (truthy (receiptNonce ctx) \<and> truthy (receiptSecret ctx))"
  using assms
  by (auto simp add: handleSPSP_def Let_def
      split: if_splits option.splits AxiosResult.splits sum.splits prod.splits)

lemma handleSPSP_issues:
  assumes "isUuidV4 env (paramsId ctx)"
    and "stringIncludes (accept ctx) ''application/spsp4+json''"
    and "truthy (receiptNonce ctx) = truthy (receiptSecret ctx)"
    and "findUser env (paramsId ctx) = Some user"
    and "getIlpAccount env (userAccountId user) = Status200 accountData"
    and "\<not> disabled accountData"
    and "streamEnabled accountData"
    and "generateCredentials env (userAccountId user)
           (receiptSetup env (receiptNonce ctx) (receiptSecret ctx)) (asset accountData) =
         Inr (ilpAddress, sharedSecret)"
  shows "handleSPSP env ctx =
    Responded 200
      (SpspCredentials ilpAddress (base64url env sharedSecret)
         (truthy (receiptNonce ctx) \<and> truthy (receiptSecret ctx)))"
  using assms by (simp add: handleSPSP_def Let_def)

text \<open>
  C10 (as amended). For every SPSP request with a valid user id and an accept header
  that includes \<^verbatim>\<open>application/spsp4+json\<close>: if exactly one of the headers
  \<^verbatim>\<open>receipt-nonce\<close> and \<^verbatim>\<open>receipt-secret\<close> is present with a non-empty value, the
  handler answers 400. A request whose id is not a version-4 UUID is answered 400, and
  one with a valid id whose accept header lacks \<^verbatim>\<open>application/spsp4+json\<close> is answered
  406, both before the receipt headers are read. For every request, with one such header
  only no credentials are issued, and credentials that are issued carry
  \<^verbatim>\<open>receipts_enabled = true\<close> when both headers are present and non-empty and
  \<^verbatim>\<open>receipts_enabled = false\<close> when neither is; they are issued when the headers agree,
  the user and the enabled account with STREAM are found and the STREAM server
  generates them.
\<close>

theorem spsp_receipt_headers:
  "(\<not> isUuidV4 env (paramsId ctx) \<longrightarrow>
        handleSPSP env ctx = Thrown 400 ''Failed to generate credentials: invalid user id'')
   \<and> (isUuidV4 env (paramsId ctx)
      \<and> \<not> stringIncludes (accept ctx) ''application/spsp4+json'' \<longrightarrow>
        handleSPSP env ctx =
          Thrown 406
            ''Failed to generate credentials: invalid accept: must support application/spsp4+json'')
   \<and> (isUuidV4 env (paramsId ctx)
      \<and> stringIncludes (accept ctx) ''application/spsp4+json''
      \<and> truthy (receiptNonce ctx) \<noteq> truthy (receiptSecret ctx) \<longrightarrow>
        handleSPSP env ctx =
          Thrown 400
            ''Failed to generate credentials: receipt nonce and secret must accompany each other'')
   \<and> (truthy (receiptNonce ctx) \<noteq> truthy (receiptSecret ctx) \<longrightarrow>
        issuedReceiptsEnabled (handleSPSP env ctx) = None)
   \<and> (issuedReceiptsEnabled (handleSPSP env ctx) = Some enabled \<longrightarrow>
        enabled = (truthy (receiptNonce ctx) \<and> truthy (receiptSecret ctx)))
   \<and> (issuedReceiptsEnabled (handleSPSP env ctx) = Some enabled
      \<and> \<not> truthy (receiptNonce ctx) \<and> \<not> truthy (receiptSecret ctx) \<longrightarrow> \<not> enabled)
   \<and> (isUuidV4 env (paramsId ctx)
      \<and> stringIncludes (accept ctx) ''application/spsp4+json''
      \<and> truthy (receiptNonce ctx) = truthy (receiptSecret ctx)
      \<and> findUser env (paramsId ctx) = Some user
      \<and> getIlpAccount env (userAccountId user) = Status200 accountData
      \<and> \<not> disabled accountData
      \<and> streamEnabled accountData
      \<and> generateCredentials env (userAccountId user)
           (receiptSetup env (receiptNonce ctx) (receiptSecret ctx)) (asset accountData) =
         Inr (ilpAddress, sharedSecret) \<longrightarrow>
        handleSPSP env ctx =
          Responded 200
            (SpspCredentials ilpAddress (base64url env sharedSecret)
               (truthy (receiptNonce ctx) \<and> truthy (receiptSecret ctx))))"
proof -
  have none: "truthy (receiptNonce ctx) \<noteq> truthy (receiptSecret ctx) \<Longrightarrow>
      issuedReceiptsEnabled (handleSPSP env ctx) = None"
  proof (cases "issuedReceiptsEnabled (handleSPSP env ctx)")
    case None
    then show ?thesis by simp
  next
    case (Some b)
    assume "truthy (receiptNonce ctx) \<noteq> truthy (receiptSecret ctx)"
    with handleSPSP_issued [OF Some] show ?thesis by simp
  qed
  from none handleSPSP_bad_id [of env ctx] handleSPSP_bad_accept [of env ctx]
    handleSPSP_one_receipt_header [of env ctx] handleSPSP_issued [of env ctx enabled]
    handleSPSP_issues [of env ctx user accountData ilpAddress sharedSecret]
  show ?thesis by blast
qed

theorem spsp_receipt_headers_witness:
  "handleSPSP exampleSpspEnv (exampleRequest ''application/spsp4+json'' (Some nonceHeader) None) =
     Thrown 400
       ''Failed to generate credentials: receipt nonce and secret must accompany each other''
   \<and> handleSPSP exampleSpspEnv (badIdRequest (Some nonceHeader) None) =
     Thrown 400 ''Failed to generate credentials: invalid user id''
   \<and> handleSPSP exampleSpspEnv (exampleRequest ''text/html'' None (Some secretHeader)) =
     Thrown 406
       ''Failed to generate credentials: invalid accept: must support application/spsp4+json''
   \<and> handleSPSP exampleSpspEnv
       (exampleRequest ''application/spsp4+json'' (Some nonceHeader) (Some secretHeader)) =
     Responded 200 (SpspCredentials ''test.rafiki.acct1'' ''secret'' True)
   \<and> handleSPSP exampleSpspEnv (exampleRequest ''application/spsp4+json'' None None) =
     Responded 200 (SpspCredentials ''test.rafiki.acct1'' ''secret'' False)"
  using spsp_receipt_headers [where env = exampleSpspEnv
      and ctx = "exampleRequest ''application/spsp4+json'' (Some nonceHeader) None"]
    spsp_receipt_headers [where env = exampleSpspEnv
      and ctx = "badIdRequest (Some nonceHeader) None"]
    spsp_receipt_headers [where env = exampleSpspEnv
      and ctx = "exampleRequest ''text/html'' None (Some secretHeader)"]
    spsp_receipt_headers [where env = exampleSpspEnv
      and ctx = "exampleRequest ''application/spsp4+json'' (Some nonceHeader) (Some secretHeader)"
      and enabled = True]
    spsp_receipt_headers [where env = exampleSpspEnv
      and ctx = "exampleRequest ''application/spsp4+json'' None None" and enabled = False]
  by (simp add: handleSPSP_def exampleSpspEnv_def exampleRequest_def badIdRequest_def
      truthy_def Let_def receiptSetup_def nonceHeader_def secretHeader_def)

text \<open>
  C10 as stated fails: the accept header is checked before the receipt headers are read,
  so a request with a nonce, no secret and an accept header without
  \<^verbatim>\<open>application/spsp4+json\<close> is answered 406, not 400.
\<close>

theorem spsp_one_receipt_header_406_counterexample:
  "receiptNonce (exampleRequest ''text/html'' (Some ''bm9uY2U='') None) = Some ''bm9uY2U=''
   \<and> receiptSecret (exampleRequest ''text/html'' (Some ''bm9uY2U='') None) = None
   \<and> handleSPSP exampleSpspEnv (exampleRequest ''text/html'' (Some ''bm9uY2U='') None) =
       Thrown 406
         ''Failed to generate credentials: invalid accept: must support application/spsp4+json''"
  by (simp add: handleSPSP_def exampleSpspEnv_def exampleRequest_def)

end
